theory Spec2Isabelle
  imports Main
begin

section \<open>The chess bot of \<open>bot.py\<close>: data\<close>

text \<open>
  \<open>bot.py\<close> defines the class \<open>Bot\<close> with the methods \<open>check_move_is_legal\<close>,
  \<open>next_move\<close>, \<open>minimax\<close> and \<open>evaluate_board\<close>. The board is an object of the
  external library \<open>chess\<close> (python-chess); the bot only calls its methods. The
  library is not part of the repository, so its operations are a parameter of every
  definition below: a record of functions over a type \<open>'b\<close> of board states and a
  type \<open>'m\<close> of moves.
\<close>

text \<open>\<open>chess.PAWN\<close>, ..., \<open>chess.KING\<close>.\<close>

datatype piece_type = PAWN | KNIGHT | BISHOP | ROOK | QUEEN | KING

text \<open>\<open>chess.WHITE\<close> is \<open>True\<close> and \<open>chess.BLACK\<close> is \<open>False\<close>.\<close>

type_synonym color = bool

abbreviation (input) WHITE :: color where "WHITE \<equiv> True"
abbreviation (input) BLACK :: color where "BLACK \<equiv> False"

text \<open>A square is its index, 0 (a1) to 63 (h8).\<close>

type_synonym square = nat

text \<open>
  The exceptions that the bot's own code can provoke: \<open>TypeError\<close> from subscripting
  or unpacking \<open>None\<close>, \<open>AttributeError\<close> from \<open>None.uci()\<close>, and the \<open>ValueError\<close>
  (\<open>InvalidMoveError\<close>) that \<open>chess.Move.from_uci\<close> raises on a malformed string.
\<close>

datatype error = TypeError | AttributeError | ValueError

text \<open>
  The methods of the library that \<open>bot.py\<close> calls. \<open>legal_moves\<close> is the enumeration
  of \<open>board.legal_moves\<close> in the order the library yields it; \<open>push\<close> and \<open>pop\<close>
  mutate the board, so they map a board state to the next one; \<open>pieces b t c\<close> is the
  square set \<open>board.pieces(t, c)\<close>; \<open>turn\<close> is \<open>board.turn\<close>; \<open>from_uci\<close> is
  \<open>chess.Move.from_uci\<close>, which raises on a malformed string, and \<open>uci\<close> is
  \<open>Move.uci\<close>.
\<close>

record ('b, 'm) chess =
  legal_moves :: "'b \<Rightarrow> 'm list"
  push :: "'b \<Rightarrow> 'm \<Rightarrow> 'b"
  pop :: "'b \<Rightarrow> 'b"
  is_game_over :: "'b \<Rightarrow> bool"
  is_checkmate :: "'b \<Rightarrow> bool"
  pieces :: "'b \<Rightarrow> piece_type \<Rightarrow> color \<Rightarrow> square set"
  turn :: "'b \<Rightarrow> color"
  from_uci :: "string \<Rightarrow> error + 'm"
  uci :: "'m \<Rightarrow> string"

subsection \<open>Scores\<close>

text \<open>
  A score is a Python number: the \<open>int\<close> that \<open>evaluate_board\<close> returns, or one of
  the floats \<open>float("-inf")\<close> and \<open>float("inf")\<close>. Python compares an \<open>int\<close> with
  an infinite float by value, which is the order below.
\<close>

datatype score = NegInf | Fin int | PosInf

instantiation score :: linorder
begin

fun less_eq_score :: "score \<Rightarrow> score \<Rightarrow> bool" where
  "less_eq_score NegInf y = True"
| "less_eq_score (Fin a) NegInf = False"
| "less_eq_score (Fin a) (Fin b) = (a \<le> b)"
| "less_eq_score (Fin a) PosInf = True"
| "less_eq_score PosInf NegInf = False"
| "less_eq_score PosInf (Fin b) = False"
| "less_eq_score PosInf PosInf = True"

definition less_score :: "score \<Rightarrow> score \<Rightarrow> bool" where
  "less_score x y = (x \<le> y \<and> \<not> y \<le> x)"

instance
proof
  fix x y z :: score
  show "(x < y) = (x \<le> y \<and> \<not> y \<le> x)"
    by (simp add: less_score_def)
  show "x \<le> x"
    by (cases x) simp_all
  show "x \<le> y \<Longrightarrow> y \<le> z \<Longrightarrow> x \<le> z"
    by (cases x; cases y; cases z) simp_all
  show "x \<le> y \<Longrightarrow> y \<le> x \<Longrightarrow> x = y"
    by (cases x; cases y) simp_all
  show "x \<le> y \<or> y \<le> x"
    by (cases x; cases y) auto
qed

end

section \<open>The bot's methods\<close>

subsection \<open>\<open>evaluate_board\<close>\<close>

text \<open>
  The dictionary \<open>piece_values\<close>, in its insertion order, which is the order in which
  \<open>piece_values.items()\<close> yields it.
\<close>

definition piece_values :: "(piece_type \<times> int) list" where
  "piece_values =
     [(PAWN, 1), (KNIGHT, 3), (BISHOP, 3), (ROOK, 5), (QUEEN, 9), (KING, 0)]"

text \<open>
  The loop of \<open>evaluate_board\<close>: for each item, first \<open>value += len(white) * piece_value\<close>,
  then \<open>value -= len(black) * piece_value\<close>. It only reads the board.
\<close>

fun evaluate_loop ::
  "('b, 'm) chess \<Rightarrow> 'b \<Rightarrow> int \<Rightarrow> (piece_type \<times> int) list \<Rightarrow> int" where
  "evaluate_loop R board v [] = v"
| "evaluate_loop R board v ((piece, piece_value) # items) =
     (let v1 = v + int (card (pieces R board piece WHITE)) * piece_value;
          v2 = v1 - int (card (pieces R board piece BLACK)) * piece_value
      in evaluate_loop R board v2 items)"

definition evaluate_board :: "('b, 'm) chess \<Rightarrow> 'b \<Rightarrow> int" where
  "evaluate_board R board = evaluate_loop R board 0 piece_values"

subsection \<open>\<open>minimax\<close>\<close>

text \<open>
  What a call of \<open>minimax\<close> hands back when it does not raise: the tuple of a
  \<open>return\<close> statement, or \<open>None\<close> when control reaches the end of the function body
  without one.
\<close>

datatype 'm returned = ReturnsNone | Tuple "'m option" score

text \<open>
  \<open>minimax\<close> mutates the board it is given, so the model takes the board state and
  returns the state the board is left in beside the outcome, also when the outcome
  is an exception. \<open>depth\<close> is a natural number: \<open>next_move\<close> passes 4 and each level
  passes \<open>depth - 1\<close> only after \<open>depth == 0\<close> has failed.

  \<open>max_loop\<close> is one pass through the body of the \<open>for\<close> loop of the maximizing
  branch, on the moves not yet visited. Its last statement, \<open>return best_move, max_eval\<close>,
  is inside the loop body, and the only other exit of the body is the \<open>break\<close>; so no
  path leads to a second iteration, and after the \<open>break\<close>, or when there is no move at
  all, control falls off the end of \<open>minimax\<close>, which returns \<open>None\<close>. The assignment
  \<open>alph = max(alpha, cur_eval)\<close> binds a name that is never read.

  \<open>min_loop\<close> is the \<open>for\<close> loop of the minimizing branch; its \<open>return\<close> follows the loop.

  In both, \<open>self.minimax(...)[1]\<close> subscripts what the call returned, which raises
  \<open>TypeError\<close> on \<open>None\<close>, before \<open>board.pop()\<close> runs.

  \<open>for move in board.legal_moves\<close> draws the moves from the library while the body
  pushes and pops the board; the loops run over the enumeration taken when the loop
  is entered.
\<close>

function
  minimax :: "('b, 'm) chess \<Rightarrow> 'b \<Rightarrow> nat \<Rightarrow> score \<Rightarrow> score \<Rightarrow> bool
                \<Rightarrow> (error + 'm returned) \<times> 'b"
and
  max_loop :: "('b, 'm) chess \<Rightarrow> 'b \<Rightarrow> nat \<Rightarrow> score \<Rightarrow> score \<Rightarrow> score \<Rightarrow> 'm option
                \<Rightarrow> 'm list \<Rightarrow> (error + 'm returned) \<times> 'b"
and
  min_loop :: "('b, 'm) chess \<Rightarrow> 'b \<Rightarrow> nat \<Rightarrow> score \<Rightarrow> score \<Rightarrow> score \<Rightarrow> 'm option
                \<Rightarrow> 'm list \<Rightarrow> (error + 'm returned) \<times> 'b"
where
  "minimax R board depth alpha beta is_maximizing =
     (if depth = 0 \<or> is_game_over R board
      then (Inr (Tuple None (Fin (evaluate_board R board))), board)
      else if is_maximizing
      then max_loop R board (depth - 1) alpha beta NegInf None (legal_moves R board)
      else min_loop R board (depth - 1) alpha beta PosInf None (legal_moves R board))"
| "max_loop R board d alpha beta max_eval best_move [] = (Inr ReturnsNone, board)"
| "max_loop R board d alpha beta max_eval best_move (move # rest) =
     (case minimax R (push R board move) d alpha beta False of
        (Inl e, board1) \<Rightarrow> (Inl e, board1)
      | (Inr ReturnsNone, board1) \<Rightarrow> (Inl TypeError, board1)
      | (Inr (Tuple _ cur_eval), board1) \<Rightarrow>
          (let board2 = pop R board1;
               (max_eval1, best_move1) =
                 (if cur_eval > max_eval then (cur_eval, Some move)
                  else (max_eval, best_move));
               alph = max alpha cur_eval
           in if beta \<le> alpha then (Inr ReturnsNone, board2)
              else (Inr (Tuple best_move1 max_eval1), board2)))"
| "min_loop R board d alpha beta min_eval best_move [] =
     (Inr (Tuple best_move min_eval), board)"
| "min_loop R board d alpha beta min_eval best_move (move # rest) =
     (case minimax R (push R board move) d alpha beta True of
        (Inl e, board1) \<Rightarrow> (Inl e, board1)
      | (Inr ReturnsNone, board1) \<Rightarrow> (Inl TypeError, board1)
      | (Inr (Tuple _ cur_eval), board1) \<Rightarrow>
          (let board2 = pop R board1;
               (min_eval1, best_move1) =
                 (if cur_eval < min_eval then (cur_eval, Some move)
                  else (min_eval, best_move));
               beta1 = min beta cur_eval
           in if beta1 \<le> alpha then (Inr (Tuple best_move1 min_eval1), board2)
              else min_loop R board2 d alpha beta1 min_eval1 best_move1 rest))"
  by pat_completeness auto
termination
  by (relation "measures
       [\<lambda>x. case x of
          Inl (R, board, depth, alpha, beta, mx) \<Rightarrow> 2 * depth
        | Inr (Inl (R, board, d, alpha, beta, e, bm, ms)) \<Rightarrow> 2 * d + 1
        | Inr (Inr (R, board, d, alpha, beta, e, bm, ms)) \<Rightarrow> 2 * d + 1,
        \<lambda>x. case x of
          Inl _ \<Rightarrow> 0
        | Inr (Inl (R, board, d, alpha, beta, e, bm, ms)) \<Rightarrow> length ms
        | Inr (Inr (R, board, d, alpha, beta, e, bm, ms)) \<Rightarrow> length ms]")
     auto

subsection \<open>\<open>next_move\<close> and \<open>check_move_is_legal\<close>\<close>

text \<open>
  \<open>move, _ = self.minimax(...)\<close> unpacks what the call returned (\<open>TypeError\<close> on
  \<open>None\<close>); \<open>move.uci()\<close> raises \<open>AttributeError\<close> when \<open>move\<close> is \<open>None\<close>.
\<close>

definition next_move :: "('b, 'm) chess \<Rightarrow> 'b \<Rightarrow> (error + string) \<times> 'b" where
  "next_move R board =
     (let max_depth = 4
      in case minimax R board max_depth NegInf PosInf True of
           (Inl e, board1) \<Rightarrow> (Inl e, board1)
         | (Inr ReturnsNone, board1) \<Rightarrow> (Inl TypeError, board1)
         | (Inr (Tuple None _), board1) \<Rightarrow> (Inl AttributeError, board1)
         | (Inr (Tuple (Some move) _), board1) \<Rightarrow> (Inr (uci R move), board1))"

text \<open>
  \<open>chess.Move.from_uci(initial_position + new_position) in self.board.legal_moves\<close>:
  the parse comes first, and its exception is not caught.
\<close>

definition check_move_is_legal ::
  "('b, 'm) chess \<Rightarrow> 'b \<Rightarrow> string \<Rightarrow> string \<Rightarrow> error + bool" where
  "check_move_is_legal R board initial_position new_position =
     (case from_uci R (initial_position @ new_position) of
        Inl e \<Rightarrow> Inl e
      | Inr move \<Rightarrow> Inr (move \<in> set (legal_moves R board)))"


section \<open>What the claims speak of\<close>

subsection \<open>The contract of the library\<close>

text \<open>
  \<open>pop\<close> undoes the \<open>push\<close> of a legal move exactly: the board is the one before the
  \<open>push\<close>.
\<close>

definition undoes :: "('b, 'm) chess \<Rightarrow> bool" where
  "undoes R = (\<forall>b. \<forall>m \<in> set (legal_moves R b). pop R (push R b m) = b)"

text \<open>
  A position without a legal move is checkmate or stalemate, so the library reports
  it as over: a position that is not over has a legal move.
\<close>

definition has_moves :: "('b, 'm) chess \<Rightarrow> bool" where
  "has_moves R = (\<forall>b. \<not> is_game_over R b \<longrightarrow> legal_moves R b \<noteq> [])"

text \<open>The per-type value table as the specification gives it.\<close>

fun value_table :: "piece_type \<Rightarrow> int" where
  "value_table PAWN = 1"
| "value_table KNIGHT = 3"
| "value_table BISHOP = 3"
| "value_table ROOK = 5"
| "value_table QUEEN = 9"
| "value_table KING = 0"


subsection \<open>The standard starting position\<close>



subsection \<open>Brute-force minimax\<close>

text \<open>
  The search of section 4.1 of the specification with the pruning left out: the base
  case returns no move and the evaluation; a node visits every legal move in the
  enumeration order, recurses with \<open>depth - 1\<close> and the other orientation on the
  position after the move, and replaces the best score and move only on a strict
  improvement, so that the first move seen wins ties.
\<close>

function
  brute_force_minimax :: "('b, 'm) chess \<Rightarrow> 'b \<Rightarrow> nat \<Rightarrow> bool \<Rightarrow> 'm option \<times> score"
and
  brute_force_loop :: "('b, 'm) chess \<Rightarrow> 'b \<Rightarrow> nat \<Rightarrow> bool \<Rightarrow> score \<Rightarrow> 'm option
                         \<Rightarrow> 'm list \<Rightarrow> 'm option \<times> score"
where
  "brute_force_minimax R board depth maximizing =
     (if depth = 0 \<or> is_game_over R board
      then (None, Fin (evaluate_board R board))
      else brute_force_loop R board (depth - 1) maximizing
             (if maximizing then NegInf else PosInf) None (legal_moves R board))"
| "brute_force_loop R board d maximizing best best_move [] = (best_move, best)"
| "brute_force_loop R board d maximizing best best_move (move # rest) =
     (let s = snd (brute_force_minimax R (push R board move) d (\<not> maximizing))
      in if (if maximizing then s > best else s < best)
         then brute_force_loop R board d maximizing s (Some move) rest
         else brute_force_loop R board d maximizing best best_move rest)"
  by pat_completeness auto
termination
  by (relation "measures
       [\<lambda>x. case x of
          Inl (R, board, depth, mx) \<Rightarrow> 2 * depth
        | Inr (R, board, d, mx, e, bm, ms) \<Rightarrow> 2 * d + 1,
        \<lambda>x. case x of
          Inl _ \<Rightarrow> 0
        | Inr (R, board, d, mx, e, bm, ms) \<Rightarrow> length ms]")
     auto


section \<open>A library given by explicit game trees\<close>

text \<open>
  One concrete library, on which the theorems are evaluated. A position is a node of
  a finite tree: its piece placement, the side to move, whether it is checkmate, and
  the legal moves in enumeration order, each with the position it leads to. A board
  is the current position and the stack of the positions before each pushed move,
  so that \<open>pop\<close> restores what \<open>push\<close> saved. A move is its UCI text. A tree is cut
  after the plies that are listed; a position with no listed move counts as over.
\<close>

type_synonym placement = "(square \<times> color \<times> piece_type) list"

datatype position =
  Position (placement: placement) (side: color) (mated: bool)
    (replies: "(string \<times> position) list")

type_synonym tree_board = "position \<times> position list"

text \<open>The squares of a placement that hold a piece of type \<open>t\<close> and colour \<open>c\<close>.\<close>

fun squares_of :: "placement \<Rightarrow> piece_type \<Rightarrow> color \<Rightarrow> square list" where
  "squares_of [] t c = []"
| "squares_of ((s, c', t') # pl) t c =
     (if c' = c \<and> t' = t then s # squares_of pl t c else squares_of pl t c)"

text \<open>The names \<open>a1\<close> to \<open>h8\<close>.\<close>

definition square_name :: "string \<Rightarrow> bool" where
  "square_name s =
     (case s of
        [f, r] \<Rightarrow> f \<in> set ''abcdefgh'' \<and> r \<in> set ''12345678''
      | _ \<Rightarrow> False)"

text \<open>
  The parser of this library accepts the null move \<open>0000\<close> and two distinct square
  names with an optional piece letter, and raises on every other string.
\<close>

definition parse_uci :: "string \<Rightarrow> error + string" where
  "parse_uci s =
     (if s = ''0000'' then Inr s
      else if (length s = 4 \<or> length s = 5 \<and> s ! 4 \<in> set ''pnbrqk'')
              \<and> square_name (take 2 s) \<and> square_name (take 2 (drop 2 s))
              \<and> take 2 s \<noteq> take 2 (drop 2 s)
      then Inr s
      else Inl ValueError)"

definition tree_chess :: "(tree_board, string) chess" where
  "tree_chess =
     \<lparr> legal_moves = (\<lambda>(p, st). map fst (replies p)),
       push = (\<lambda>(p, st) m. case map_of (replies p) m of
                  Some q \<Rightarrow> (q, p # st)
                | None \<Rightarrow> (p, p # st)),
       pop = (\<lambda>(p, st). case st of [] \<Rightarrow> (p, []) | q # st' \<Rightarrow> (q, st')),
       is_game_over = (\<lambda>(p, st). replies p = []),
       is_checkmate = (\<lambda>(p, st). mated p),
       pieces = (\<lambda>(p, st) t c. set (squares_of (placement p) t c)),
       turn = (\<lambda>(p, st). side p),
       from_uci = parse_uci,
       uci = (\<lambda>m. m) \<rparr>"

text \<open>
  The placement after the piece on square \<open>a\<close> has gone to square \<open>b\<close>, taking what
  stood there.
\<close>

definition move_piece :: "square \<Rightarrow> square \<Rightarrow> placement \<Rightarrow> placement" where
  "move_piece a b pl =
     map (\<lambda>(s, x). if s = a then (b, x) else (s, x)) (filter (\<lambda>(s, x). s \<noteq> b) pl)"

text \<open>
  The edge of a tree for the move \<open>u\<close> from \<open>a\<close> to \<open>b\<close>, made by side \<open>c\<close> on the
  placement \<open>pl\<close>; \<open>m\<close> says whether it mates, \<open>rs\<close> are the replies listed.
\<close>

definition after ::
  "placement \<Rightarrow> color \<Rightarrow> bool \<Rightarrow> (string \<times> position) list
     \<Rightarrow> string \<times> square \<times> square \<Rightarrow> string \<times> position" where
  "after pl c m rs = (\<lambda>(u, a, b). (u, Position (move_piece a b pl) (\<not> c) m rs))"

text \<open>
  \<open>q3k3/8/8/8/8/8/8/R3K3 w - - 0 1\<close>: White has king e1 and rook a1, Black has king
  e8 and queen a8. White's fifteen legal moves, king moves before rook moves and
  targets from h8 down to a1; the sixth takes the queen.
\<close>

definition rook_queen_placement :: placement where
  "rook_queen_placement =
     [(0, WHITE, ROOK), (4, WHITE, KING), (56, BLACK, QUEEN), (60, BLACK, KING)]"

definition rook_queen :: position where
  "rook_queen =
     Position rook_queen_placement WHITE False
       (map (after rook_queen_placement WHITE False [])
          [(''e1f2'', 4, 13), (''e1e2'', 4, 12), (''e1d2'', 4, 11), (''e1f1'', 4, 5),
           (''e1d1'', 4, 3),
           (''a1a8'', 0, 56), (''a1a7'', 0, 48), (''a1a6'', 0, 40), (''a1a5'', 0, 32),
           (''a1a4'', 0, 24), (''a1a3'', 0, 16), (''a1a2'', 0, 8),
           (''a1d1'', 0, 3), (''a1c1'', 0, 2), (''a1b1'', 0, 1)])"

text \<open>
  \<open>k7/8/8/8/8/2K3N1/8/7n b - - 149 100\<close>: Black, to move, has king a8 and knight
  h1; White has king c3 and knight g3. Black's five legal moves, king moves before
  knight moves. The half-move clock stands at 149, so after each of the four quiet
  moves the game is over by the seventy-five-move rule, and after \<open>h1g3\<close>, which
  takes the knight, it is over for insufficient material: every position after
  Black's move is over in the library as it is here.
\<close>

definition knight_ending_placement :: placement where
  "knight_ending_placement =
     [(7, BLACK, KNIGHT), (18, WHITE, KING), (22, WHITE, KNIGHT), (56, BLACK, KING)]"

definition knight_ending :: position where
  "knight_ending =
     Position knight_ending_placement BLACK False
       (map (after knight_ending_placement BLACK False [])
          [(''a8b8'', 56, 57), (''a8b7'', 56, 49), (''a8a7'', 56, 48),
           (''h1g3'', 7, 22), (''h1f2'', 7, 13)])"

text \<open>
  \<open>7k/8/6K1/8/8/8/8/Rn6 w - - 0 1\<close>: White has king g6 and rook a1, Black has king h8
  and knight b1. Of White's fourteen legal moves, \<open>a1a8\<close> is checkmate and \<open>a1b1\<close>
  takes the knight. After the first move, \<open>g6f7\<close>, Black has four legal moves.
\<close>

definition mate_placement :: placement where
  "mate_placement =
     [(0, WHITE, ROOK), (1, BLACK, KNIGHT), (46, WHITE, KING), (63, BLACK, KING)]"

definition mate_in_one :: position where
  "mate_in_one =
     Position mate_placement WHITE False
       (after mate_placement WHITE False
          (map (after (move_piece 46 53 mate_placement) BLACK False [])
             [(''h8h7'', 63, 55), (''b1c3'', 1, 18), (''b1a3'', 1, 16), (''b1d2'', 1, 11)])
          (''g6f7'', 46, 53) #
        map (after mate_placement WHITE False [])
          [(''g6h6'', 46, 47), (''g6f6'', 46, 45), (''g6h5'', 46, 39), (''g6g5'', 46, 38),
           (''g6f5'', 46, 37)] @
        after mate_placement WHITE True [] (''a1a8'', 0, 56) #
        map (after mate_placement WHITE False [])
          [(''a1a7'', 0, 48), (''a1a6'', 0, 40), (''a1a5'', 0, 32), (''a1a4'', 0, 24),
           (''a1a3'', 0, 16), (''a1a2'', 0, 8), (''a1b1'', 0, 1)])"

text \<open>
  The standard starting position with its twenty legal moves: the knight moves, the
  single pawn steps from the h-file to the a-file, then the double steps.
\<close>

definition start_placement :: placement where
  "start_placement =
     [(0, WHITE, ROOK), (1, WHITE, KNIGHT), (2, WHITE, BISHOP), (3, WHITE, QUEEN),
      (4, WHITE, KING), (5, WHITE, BISHOP), (6, WHITE, KNIGHT), (7, WHITE, ROOK),
      (8, WHITE, PAWN), (9, WHITE, PAWN), (10, WHITE, PAWN), (11, WHITE, PAWN),
      (12, WHITE, PAWN), (13, WHITE, PAWN), (14, WHITE, PAWN), (15, WHITE, PAWN),
      (48, BLACK, PAWN), (49, BLACK, PAWN), (50, BLACK, PAWN), (51, BLACK, PAWN),
      (52, BLACK, PAWN), (53, BLACK, PAWN), (54, BLACK, PAWN), (55, BLACK, PAWN),
      (56, BLACK, ROOK), (57, BLACK, KNIGHT), (58, BLACK, BISHOP), (59, BLACK, QUEEN),
      (60, BLACK, KING), (61, BLACK, BISHOP), (62, BLACK, KNIGHT), (63, BLACK, ROOK)]"

definition start_position :: position where
  "start_position =
     Position start_placement WHITE False
       (map (after start_placement WHITE False [])
          [(''g1h3'', 6, 23), (''g1f3'', 6, 21), (''b1c3'', 1, 18), (''b1a3'', 1, 16),
           (''h2h3'', 15, 23), (''g2g3'', 14, 22), (''f2f3'', 13, 21), (''e2e3'', 12, 20),
           (''d2d3'', 11, 19), (''c2c3'', 10, 18), (''b2b3'', 9, 17), (''a2a3'', 8, 16),
           (''h2h4'', 15, 31), (''g2g4'', 14, 30), (''f2f4'', 13, 29), (''e2e4'', 12, 28),
           (''d2d4'', 11, 27), (''c2c4'', 10, 26), (''b2b4'', 9, 25), (''a2a4'', 8, 24)])"


section \<open>Auxiliary facts\<close>

declare minimax.simps [simp del]
declare brute_force_minimax.simps [simp del]

subsection \<open>Scores and piece types\<close>

lemma score_le_NegInf: "(x \<le> NegInf) = (x = NegInf)"
  by (cases x) simp_all

lemma Fin_less [simp]:
  "Fin a < PosInf" "NegInf < Fin a" "\<not> Fin a < NegInf" "(Fin a < Fin b) = (a < b)"
  by (auto simp: less_score_def)

lemma min_Fin_not_NegInf: "beta \<noteq> NegInf \<Longrightarrow> min beta (Fin s) \<noteq> NegInf"
  by (cases beta) (simp_all add: min_def)

lemma min_Fin_Fin: "min (Fin a) (Fin b) = Fin (min a b)"
  by (simp add: min_def)

lemma min_PosInf: "min PosInf (x::score) = x"
  by (cases x) (simp_all add: min_def)

lemma Min_insert_min:
  "finite S \<Longrightarrow> Min (insert (min a b) S) = Min (insert (a::int) (insert b S))"
  by (cases "S = {}") (simp_all add: min.assoc)

lemma fold_min_Fin:
  "fold (\<lambda>m s. min s (Fin (f m))) ms (Fin a) = Fin (Min (insert a (f ` set ms)))"
proof (induction ms arbitrary: a)
  case Nil
  show ?case by simp
next
  case (Cons m ms)
  show ?case
    by (simp add: min_Fin_Fin Cons.IH Min_insert_min)
qed

subsection \<open>The explicit library keeps the contract\<close>

lemma undoesD:
  "undoes R \<Longrightarrow> m \<in> set (legal_moves R b) \<Longrightarrow> pop R (push R b m) = b"
  by (simp add: undoes_def)


lemma has_moves_tree_chess: "has_moves tree_chess"
  by (auto simp: has_moves_def tree_chess_def)








subsection \<open>The material count\<close>










subsection \<open>The search\<close>

text \<open>The base case: at depth 0 or on a finished game, no move and the material count.\<close>

lemma minimax_base:
  "depth = 0 \<or> is_game_over R board \<Longrightarrow>
     minimax R board depth alpha beta mx = (Inr (Tuple None (Fin (evaluate_board R board))), board)"
  by (simp add: minimax.simps)

lemma minimax_max_first_child:
  assumes "\<not> is_game_over R board" and "legal_moves R board = m # ms"
    and "\<not> beta \<le> alpha"
  shows "fst (minimax R board 1 alpha beta True) =
           Inr (Tuple (Some m) (Fin (evaluate_board R (push R board m))))"
  using assms by (simp add: minimax.simps minimax_base Let_def)


text \<open>
  With \<open>alpha\<close> at \<open>-inf\<close> and \<open>beta\<close> above it, no \<open>break\<close> fires: the search raises
  nothing, its score is an integer, and below a position that is not over it returns
  a legal move, at a maximizing node the first one.
\<close>

lemma finite_result:
  "has_moves R \<Longrightarrow> alpha = NegInf \<Longrightarrow> beta \<noteq> NegInf \<Longrightarrow>
     \<exists>mv s. fst (minimax R board depth alpha beta mx) = Inr (Tuple mv (Fin s)) \<and>
       (0 < depth \<and> \<not> is_game_over R board \<longrightarrow>
          (\<exists>m \<in> set (legal_moves R board). mv = Some m)) \<and>
       (0 < depth \<and> \<not> is_game_over R board \<and> mx \<longrightarrow> mv = Some (hd (legal_moves R board)))"
  "has_moves R \<Longrightarrow> alpha = NegInf \<Longrightarrow> beta \<noteq> NegInf \<Longrightarrow> e = NegInf \<Longrightarrow> ms \<noteq> [] \<Longrightarrow>
     \<exists>s. fst (max_loop R board d alpha beta e bm ms) = Inr (Tuple (Some (hd ms)) (Fin s))"
  "has_moves R \<Longrightarrow> alpha = NegInf \<Longrightarrow> beta \<noteq> NegInf \<Longrightarrow>
     (e = PosInf \<and> ms \<noteq> []) \<or> (bm \<noteq> None \<and> (\<exists>x. e = Fin x)) \<Longrightarrow>
     \<exists>mv s. fst (min_loop R board d alpha beta e bm ms) = Inr (Tuple (Some mv) (Fin s)) \<and>
       (mv \<in> set ms \<or> bm = Some mv)"
proof (induction R board depth alpha beta mx and R board d alpha beta e bm ms
    and R board d alpha beta e bm ms
    rule: minimax_max_loop_min_loop.induct)
  case (1 R board depth alpha beta is_maximizing)
  show ?case
  proof (cases "depth = 0 \<or> is_game_over R board")
    case True
    then show ?thesis by (auto simp: minimax.simps)
  next
    case False
    then have ne: "legal_moves R board \<noteq> []"
      using "1.prems" by (simp add: has_moves_def)
    show ?thesis
    proof (cases is_maximizing)
      case True
      from "1.IH"(1) [OF False True "1.prems" refl ne]
      show ?thesis using False True hd_in_set [OF ne] by (auto simp: minimax.simps)
    next
      case mn: False
      from "1.IH"(2) [OF False mn "1.prems"] ne
      show ?thesis using False mn by (auto simp: minimax.simps)
    qed
  qed
next
  case (2 R board d alpha beta max_eval best_move)
  then show ?case by simp
next
  case (3 R board d alpha beta max_eval best_move move rest)
  from "3.IH" [OF "3.prems"(1,2,3)]
  obtain mv s where
    "fst (minimax R (push R board move) d alpha beta False) = Inr (Tuple mv (Fin s))"
    by blast
  then show ?case using "3.prems"
    by (auto simp: Let_def score_le_NegInf split: prod.splits sum.splits returned.splits)
next
  case (4 R board d alpha beta min_eval best_move)
  then show ?case by auto
next
  case (5 R board d alpha beta min_eval best_move move rest)
  from "5.IH"(1) [OF "5.prems"(1,2,3)]
  obtain mv s where
    c: "fst (minimax R (push R board move) d alpha beta True) = Inr (Tuple mv (Fin s))"
    by blast
  obtain b1 where
    c': "minimax R (push R board move) d alpha beta True = (Inr (Tuple mv (Fin s)), b1)"
    using c by (cases "minimax R (push R board move) d alpha beta True") auto
  have nb: "min beta (Fin s) \<noteq> NegInf"
    using "5.prems"(3) by (rule min_Fin_not_NegInf)
  have nle: "\<not> min beta (Fin s) \<le> alpha"
    using nb "5.prems"(2) by (simp add: score_le_NegInf)
  show ?case
  proof (cases "Fin s < min_eval")
    case True
    have "\<exists>mv' s'. fst (min_loop R (pop R b1) d alpha (min beta (Fin s)) (Fin s) (Some move) rest)
            = Inr (Tuple (Some mv') (Fin s')) \<and> (mv' \<in> set rest \<or> Some move = Some mv')"
      by (rule "5.IH"(2) [OF c' [symmetric] refl refl refl refl _ refl nle "5.prems"(1,2) nb])
         (use True in auto)
    then show ?thesis using c' True nle by (auto simp: Let_def)
  next
    case False
    then have fin: "best_move \<noteq> None \<and> (\<exists>x. min_eval = Fin x)"
      using "5.prems"(4) by (auto simp: less_score_def)
    have "\<exists>mv' s'. fst (min_loop R (pop R b1) d alpha (min beta (Fin s)) min_eval best_move rest)
            = Inr (Tuple (Some mv') (Fin s')) \<and> (mv' \<in> set rest \<or> best_move = Some mv')"
      by (rule "5.IH"(2) [OF c' [symmetric] refl refl refl refl _ refl nle "5.prems"(1,2) nb])
         (use False fin in auto)
    then show ?thesis using c' False nle by (auto simp: Let_def)
  qed
qed

lemma minimax_root_bounds:
  assumes "has_moves R" and "\<not> is_game_over R board" and "0 < depth"
  shows "\<exists>m s. m \<in> set (legal_moves R board) \<and>
           fst (minimax R board depth NegInf PosInf is_maximizing) = Inr (Tuple (Some m) (Fin s))"
  using finite_result(1) [OF assms(1) refl, of PosInf board depth is_maximizing] assms(2,3)
  by auto

lemma minimax_max_root_first:
  assumes "has_moves R" and "\<not> is_game_over R board" and "0 < depth"
  shows "\<exists>s. fst (minimax R board depth NegInf PosInf True)
           = Inr (Tuple (Some (hd (legal_moves R board))) (Fin s))"
  using finite_result(1) [OF assms(1) refl, of PosInf board depth True] assms(2,3)
  by auto

text \<open>
  A minimizing node at depth 1 visits every legal move and returns the least
  evaluation.
\<close>

lemma min_loop_leaves:
  assumes "undoes R" and "set ms \<subseteq> set (legal_moves R board)" and "beta \<noteq> NegInf"
  shows "\<exists>bm'. min_loop R board 0 NegInf beta e bm ms =
           (Inr (Tuple bm' (fold (\<lambda>m s. min s (Fin (evaluate_board R (push R board m)))) ms e)),
            board)"
  using assms(2,3)
proof (induction ms arbitrary: beta e bm)
  case Nil
  show ?case by simp
next
  case (Cons m ms)
  let ?v = "Fin (evaluate_board R (push R board m))"
  have restored: "pop R (push R board m) = board"
    using Cons.prems(1) by (simp add: undoesD [OF assms(1)])
  have nb: "min beta ?v \<noteq> NegInf"
    using Cons.prems(2) by (rule min_Fin_not_NegInf)
  have sub: "set ms \<subseteq> set (legal_moves R board)"
    using Cons.prems(1) by simp
  from Cons.IH [OF sub nb]
  obtain bm' where
    "min_loop R board 0 NegInf (min beta ?v) (min e ?v)
       (if ?v < e then Some m else bm) ms =
     (Inr (Tuple bm' (fold (\<lambda>m s. min s (Fin (evaluate_board R (push R board m)))) ms (min e ?v))),
      board)"
    by blast
  then show ?case
    using nb by (auto simp: minimax_base restored Let_def score_le_NegInf min_def)
qed

lemma minimax_min_depth1_exhaustive:
  assumes "undoes R" and "\<not> is_game_over R board" and "legal_moves R board \<noteq> []"
  shows "\<exists>mv. minimax R board 1 NegInf PosInf False =
           (Inr (Tuple mv (Fin (Min ((\<lambda>m. evaluate_board R (push R board m))
                                       ` set (legal_moves R board))))), board)"
proof -
  obtain m ms where l: "legal_moves R board = m # ms"
    using assms(3) by (cases "legal_moves R board") auto
  from min_loop_leaves [OF assms(1), of "legal_moves R board" board PosInf PosInf None]
  obtain bm' where
    "min_loop R board 0 NegInf PosInf PosInf None (legal_moves R board) =
       (Inr (Tuple bm' (fold (\<lambda>m s. min s (Fin (evaluate_board R (push R board m))))
                          (legal_moves R board) PosInf)), board)"
    by auto
  then show ?thesis
    using assms(2) by (simp add: minimax.simps l min_PosInf fold_min_Fin)
qed



section \<open>The claims\<close>

subsection \<open>Exhaustiveness at depth 1\<close>

text \<open>
  Claim C1: for every position with a legal move, \<open>minimax\<close> at depth 1 with
  \<open>alpha = -inf\<close>, \<open>beta = +inf\<close> and \<open>is_maximizing = True\<close> returns the maximum of
  \<open>evaluate_board\<close> over the positions one legal move away, never returning after
  only the first child. The code returns after the first child: in the position
  \<open>rook_queen\<close> it answers with the first move, the king step \<open>e1f2\<close>, and its score
  -4, although the legal move \<open>a1a8\<close> takes the queen and leads to a position that
  evaluates to 5.
\<close>

theorem minimax_first_child_only:
  "fst (minimax tree_chess (rook_queen, []) 1 NegInf PosInf True)
     = Inr (Tuple (Some ''e1f2'') (Fin (- 4))) \<and>
   ''a1a8'' \<in> set (legal_moves tree_chess (rook_queen, [])) \<and>
   evaluate_board tree_chess (push tree_chess (rook_queen, []) ''a1a8'') = 5"
  by code_simp

subsection \<open>Agreement with brute-force minimax\<close>

text \<open>
  Claim C2: with \<open>alpha = -inf\<close> and \<open>beta = +inf\<close>, \<open>minimax\<close> returns the move and
  the score of brute-force minimax at every depth up to 4. In the position
  \<open>rook_queen\<close> at depth 1 the two differ: the code returns \<open>e1f2\<close> with -4,
  brute-force minimax returns \<open>a1a8\<close> with 5.
\<close>

theorem minimax_differs_from_brute_force:
  "fst (minimax tree_chess (rook_queen, []) 1 NegInf PosInf True)
     = Inr (Tuple (Some ''e1f2'') (Fin (- 4))) \<and>
   brute_force_minimax tree_chess (rook_queen, []) 1 True = (Some ''a1a8'', Fin 5)"
  by code_simp

subsection \<open>The orientation at the root\<close>

text \<open>
  Claim C3: \<open>next_move\<close> chooses the maximizing flag by the side to move. The code
  passes \<open>True\<close> whoever is to move. In the position \<open>knight_ending\<close> Black is to
  move and every position after Black's move is over, so the whole search is the
  one ply listed. \<open>next_move\<close> answers \<open>a8b8\<close>, the result of the maximizing
  search, which is also what an exhaustive maximizing search returns and leaves the
  score at 0; the minimizing search, in the code as in the exhaustive version,
  returns \<open>h1g3\<close>, which takes the knight and brings the score to -3.
\<close>

theorem next_move_maximizes_for_black:
  "turn tree_chess (knight_ending, []) = BLACK \<and>
   fst (next_move tree_chess (knight_ending, [])) = Inr ''a8b8'' \<and>
   fst (minimax tree_chess (knight_ending, []) 4 NegInf PosInf True)
     = Inr (Tuple (Some ''a8b8'') (Fin 0)) \<and>
   brute_force_minimax tree_chess (knight_ending, []) 4 True = (Some ''a8b8'', Fin 0) \<and>
   fst (minimax tree_chess (knight_ending, []) 4 NegInf PosInf False)
     = Inr (Tuple (Some ''h1g3'') (Fin (- 3))) \<and>
   brute_force_minimax tree_chess (knight_ending, []) 4 False = (Some ''h1g3'', Fin (- 3))"
  by code_simp

text \<open>
  On any board that is not over, \<open>next_move\<close> answers the first legal move in
  enumeration order, whichever side is to move.
\<close>

lemma next_move_first_legal_move:
  assumes "has_moves R" and "\<not> is_game_over R board"
  shows "fst (next_move R board) = Inr (uci R (hd (legal_moves R board)))"
proof -
  obtain s where
    "fst (minimax R board 4 NegInf PosInf True)
       = Inr (Tuple (Some (hd (legal_moves R board))) (Fin s))"
    using minimax_max_root_first [OF assms, of 4] by auto
  then show ?thesis
    by (cases "minimax R board 4 NegInf PosInf True") (auto simp: next_move_def)
qed

subsection \<open>\<open>next_move\<close> on a terminal position\<close>

text \<open>
  Claim C4, as amended: \<open>next_move\<close> makes no terminal check before the search. On a
  position that is already over, the search returns no move and \<open>next_move\<close> fails
  with the \<open>AttributeError\<close> of \<open>None.uci()\<close>, the board unchanged; on every position
  that is not over, in a library where such a position has a legal move, it returns
  the UCI text of a legal move.
\<close>

theorem next_move_no_terminal_check:
  "(is_game_over R board \<longrightarrow> next_move R board = (Inl AttributeError, board)) \<and>
   (has_moves R \<and> \<not> is_game_over R board \<longrightarrow>
      (\<exists>m \<in> set (legal_moves R board). fst (next_move R board) = Inr (uci R m)))"
proof (intro conjI impI)
  assume "is_game_over R board"
  then show "next_move R board = (Inl AttributeError, board)"
    by (simp add: next_move_def minimax_base)
next
  assume a: "has_moves R \<and> \<not> is_game_over R board"
  then obtain m s where "m \<in> set (legal_moves R board)"
    and "fst (minimax R board 4 NegInf PosInf True) = Inr (Tuple (Some m) (Fin s))"
    using minimax_root_bounds [of R board 4 True] by auto
  then show "\<exists>m \<in> set (legal_moves R board). fst (next_move R board) = Inr (uci R m)"
    by (cases "minimax R board 4 NegInf PosInf True") (auto simp: next_move_def)
qed

theorem next_move_no_terminal_check_witness:
  "is_game_over tree_chess (push tree_chess (mate_in_one, []) ''a1a8'') \<and>
   next_move tree_chess (push tree_chess (mate_in_one, []) ''a1a8'')
     = (Inl AttributeError, push tree_chess (mate_in_one, []) ''a1a8'') \<and>
   has_moves tree_chess \<and> \<not> is_game_over tree_chess (knight_ending, []) \<and>
   ''a8b8'' \<in> set (legal_moves tree_chess (knight_ending, [])) \<and>
   fst (next_move tree_chess (knight_ending, [])) = Inr (uci tree_chess ''a8b8'')"
proof -
  have t: "is_game_over tree_chess (push tree_chess (mate_in_one, []) ''a1a8'')"
    by code_simp
  have n: "\<not> is_game_over tree_chess (knight_ending, [])"
    by code_simp
  have m: "''a8b8'' \<in> set (legal_moves tree_chess (knight_ending, []))"
    by code_simp
  have u: "\<forall>x \<in> set (legal_moves tree_chess (knight_ending, [])).
             fst (next_move tree_chess (knight_ending, [])) = Inr (uci tree_chess x)
               \<longrightarrow> x = ''a8b8''"
    by code_simp
  show ?thesis
    using next_move_no_terminal_check [of tree_chess "push tree_chess (mate_in_one, []) ''a1a8''"]
      next_move_no_terminal_check [of tree_chess "(knight_ending, [])"]
      t n m u has_moves_tree_chess
    by auto
qed

text \<open>
  Claim C4 as stated fails: on the checkmate position reached by \<open>a1a8\<close> from
  \<open>mate_in_one\<close>, \<open>next_move\<close> reports no caller error of its own but raises
  \<open>AttributeError\<close> after the search.
\<close>

theorem next_move_terminal_counterexample:
  "is_game_over tree_chess (push tree_chess (mate_in_one, []) ''a1a8'') \<and>
   fst (next_move tree_chess (push tree_chess (mate_in_one, []) ''a1a8''))
     = Inl AttributeError"
  by code_simp

subsection \<open>The score of a mating line\<close>

text \<open>
  Claim C5, as amended: a position that is over, checkmate included, is scored by
  \<open>evaluate_board\<close>, the material count of any other leaf, at every depth and for all
  bounds; the terminal test comes before any further search and returns no move.
\<close>

theorem game_over_scored_by_material:
  "is_game_over R board \<Longrightarrow>
     minimax R board depth alpha beta is_maximizing
       = (Inr (Tuple None (Fin (evaluate_board R board))), board)"
  by (simp add: minimax_base)

theorem game_over_scored_by_material_witness:
  "is_game_over tree_chess (push tree_chess (mate_in_one, []) ''a1a8'') \<and>
   minimax tree_chess (push tree_chess (mate_in_one, []) ''a1a8'') 3 NegInf PosInf False
     = (Inr (Tuple None (Fin 2)), push tree_chess (mate_in_one, []) ''a1a8'')"
proof -
  have t: "is_game_over tree_chess (push tree_chess (mate_in_one, []) ''a1a8'')"
    by code_simp
  have e: "evaluate_board tree_chess (push tree_chess (mate_in_one, []) ''a1a8'') = 2"
    by code_simp
  show ?thesis
    using game_over_scored_by_material [OF t, of 3 NegInf PosInf False] t e by simp
qed

text \<open>
  Claim C5 as stated fails: in \<open>mate_in_one\<close> the move \<open>a1a8\<close> mates and its line is
  scored 2, the material count, while the line of \<open>a1b1\<close>, which takes the knight
  and does not mate, has the material score 5; an exhaustive search of depth 1
  prefers \<open>a1b1\<close>.
\<close>

theorem mate_scored_by_material_counterexample:
  "is_checkmate tree_chess (push tree_chess (mate_in_one, []) ''a1a8'') \<and>
   fst (minimax tree_chess (push tree_chess (mate_in_one, []) ''a1a8'') 3 NegInf PosInf False)
     = Inr (Tuple None (Fin 2)) \<and>
   \<not> is_checkmate tree_chess (push tree_chess (mate_in_one, []) ''a1b1'') \<and>
   evaluate_board tree_chess (push tree_chess (mate_in_one, []) ''a1b1'') = 5 \<and>
   brute_force_minimax tree_chess (mate_in_one, []) 1 True = (Some ''a1b1'', Fin 5)"
  by code_simp

subsection \<open>The evaluation\<close>

text \<open>
  Claim C6: \<open>evaluate_board\<close> is a function of the position alone and returns the sum
  over the piece types of the number of White pieces of the type minus the number
  of Black pieces of the type, times the value of the type, with pawn 1, knight 3,
  bishop 3, rook 5, queen 9 and king 0.
\<close>

theorem evaluate_board_material:
  "evaluate_board R board =
     (\<Sum>t \<leftarrow> [PAWN, KNIGHT, BISHOP, ROOK, QUEEN, KING].
        (int (card (pieces R board t WHITE)) - int (card (pieces R board t BLACK)))
          * value_table t)"
  by (simp add: evaluate_board_def piece_values_def Let_def algebra_simps)

subsection \<open>The board after the search\<close>




subsection \<open>The search from the standard starting position\<close>




subsection \<open>The legality probe\<close>

text \<open>
  Claim C9, as amended: when the concatenation of origin and destination parses as
  a move, \<open>check_move_is_legal\<close> returns a boolean, \<open>True\<close> exactly when the move is
  among the legal moves of the board; when it does not parse, the exception of
  \<open>chess.Move.from_uci\<close> reaches the caller.
\<close>

theorem check_move_is_legal_parsed:
  "(from_uci R (initial_position @ new_position) = Inr move \<longrightarrow>
      check_move_is_legal R board initial_position new_position
        = Inr (move \<in> set (legal_moves R board))) \<and>
   (from_uci R (initial_position @ new_position) = Inl e \<longrightarrow>
      check_move_is_legal R board initial_position new_position = Inl e)"
  by (simp add: check_move_is_legal_def)

theorem check_move_is_legal_parsed_witness:
  "from_uci tree_chess (''e2'' @ ''e4'') = Inr ''e2e4'' \<and>
   check_move_is_legal tree_chess (start_position, []) ''e2'' ''e4'' = Inr True \<and>
   from_uci tree_chess (''e2'' @ ''e5'') = Inr ''e2e5'' \<and>
   check_move_is_legal tree_chess (start_position, []) ''e2'' ''e5'' = Inr False \<and>
   from_uci tree_chess (''e2'' @ ''x'') = Inl ValueError \<and>
   check_move_is_legal tree_chess (start_position, []) ''e2'' ''x'' = Inl ValueError"
proof -
  have a: "from_uci tree_chess (''e2'' @ ''e4'') = Inr ''e2e4''" by code_simp
  have b: "from_uci tree_chess (''e2'' @ ''e5'') = Inr ''e2e5''" by code_simp
  have c: "from_uci tree_chess (''e2'' @ ''x'') = Inl ValueError" by code_simp
  have la: "(''e2e4'' \<in> set (legal_moves tree_chess (start_position, []))) = True" by code_simp
  have lb: "(''e2e5'' \<in> set (legal_moves tree_chess (start_position, []))) = False" by code_simp
  show ?thesis
    using check_move_is_legal_parsed [of tree_chess "''e2''" "''e4''" "''e2e4''" "(start_position, [])"]
      check_move_is_legal_parsed [of tree_chess "''e2''" "''e5''" "''e2e5''" "(start_position, [])"]
      check_move_is_legal_parsed [of tree_chess "''e2''" "''x''" _ "(start_position, [])" ValueError]
      a b c la lb
    by simp
qed

text \<open>
  Claim C9 as stated fails: on the strings \<open>e2\<close> and \<open>e9\<close> the probe raises
  \<open>ValueError\<close>.
\<close>

theorem check_move_is_legal_raises_counterexample:
  "check_move_is_legal tree_chess (start_position, []) ''e2'' ''e9'' = Inl ValueError"
  by code_simp

subsection \<open>The move that the search returns\<close>

text \<open>
  Claim C10: for every position that is not over and every depth from 1 on,
  \<open>minimax\<close>, called with the bounds of the calls that \<open>next_move\<close> starts
  (\<open>alpha = -inf\<close>, which no call changes, and \<open>beta\<close> above \<open>-inf\<close>), returns a legal
  move, not \<open>None\<close>, and a finite score, in either orientation; so \<open>next_move\<close>
  converts a move and returns its UCI text. The library guarantees that a position
  that is not over has a legal move.
\<close>

theorem minimax_returns_move:
  assumes "has_moves R" and "\<not> is_game_over R board" and "0 < depth"
    and "beta \<noteq> NegInf"
  shows "(\<exists>m \<in> set (legal_moves R board). \<exists>s.
            fst (minimax R board depth NegInf beta is_maximizing)
              = Inr (Tuple (Some m) (Fin s))) \<and>
         (\<exists>m \<in> set (legal_moves R board). fst (next_move R board) = Inr (uci R m))"
proof
  show "\<exists>m \<in> set (legal_moves R board). \<exists>s.
          fst (minimax R board depth NegInf beta is_maximizing) = Inr (Tuple (Some m) (Fin s))"
    using finite_result(1) [OF assms(1) refl assms(4), of board depth is_maximizing] assms(2,3)
    by auto
  have "legal_moves R board \<noteq> []"
    using assms(1,2) by (simp add: has_moves_def)
  then have "hd (legal_moves R board) \<in> set (legal_moves R board)"
    by simp
  then show "\<exists>m \<in> set (legal_moves R board). fst (next_move R board) = Inr (uci R m)"
    using next_move_first_legal_move [OF assms(1,2)] by blast
qed

theorem minimax_returns_move_witness:
  "has_moves tree_chess \<and> \<not> is_game_over tree_chess (knight_ending, []) \<and>
   (0::nat) < 4 \<and> PosInf \<noteq> NegInf \<and>
   fst (minimax tree_chess (knight_ending, []) 4 NegInf PosInf True)
     = Inr (Tuple (Some ''a8b8'') (Fin 0)) \<and>
   ''a8b8'' \<in> set (legal_moves tree_chess (knight_ending, [])) \<and>
   fst (next_move tree_chess (knight_ending, [])) = Inr (uci tree_chess ''a8b8'')"
proof -
  have n: "\<not> is_game_over tree_chess (knight_ending, [])"
    by code_simp
  have r: "fst (minimax tree_chess (knight_ending, []) 4 NegInf PosInf True)
             = Inr (Tuple (Some ''a8b8'') (Fin 0))"
    by code_simp
  have m: "''a8b8'' \<in> set (legal_moves tree_chess (knight_ending, []))"
    by code_simp
  have u: "\<forall>x \<in> set (legal_moves tree_chess (knight_ending, [])).
             fst (next_move tree_chess (knight_ending, [])) = Inr (uci tree_chess x)
               \<longrightarrow> x = ''a8b8''"
    by code_simp
  show ?thesis
    using minimax_returns_move [OF has_moves_tree_chess n, of 4 PosInf True]
      has_moves_tree_chess n r m u
    by auto
qed

end
